theory Spec2Isabelle
  imports Complex_Main
begin

section \<open>Python values, exceptions and effects\<close>

text \<open>
  The program is one Streamlit script, \<^verbatim>\<open>app.py\<close>, with the functions
  \<^verbatim>\<open>load_artifacts\<close> and \<^verbatim>\<open>main\<close>.  One run of the script is modelled: the values
  the widgets return are the input, the calls that draw on the page and the calls into the
  loaded scaler and model are recorded, in order, as a list of events.

  Exceptions are values.  Only the class matters to the two handlers of \<^verbatim>\<open>main\<close> and to the
  one of \<^verbatim>\<open>load_artifacts\<close>; \<open>KeyboardInterrupt\<close> stands for the classes that derive from
  \<^verbatim>\<open>BaseException\<close> only, which \<^verbatim>\<open>except Exception\<close> lets through.
\<close>

datatype exc_type =
  FileNotFoundError | ValueError | IndexError | AttributeError | OtherException | KeyboardInterrupt

datatype exn = Exc (exc_class: exc_type) (exc_str: string)

definition isinstance_Exception :: "exn \<Rightarrow> bool" where
  "isinstance_Exception e \<longleftrightarrow> exc_class e \<noteq> KeyboardInterrupt"

definition isinstance_ValueError :: "exn \<Rightarrow> bool" where
  "isinstance_ValueError e \<longleftrightarrow> exc_class e = ValueError"

text \<open>A float of Python: a real number or not-a-number.\<close>

datatype float64 = Float real | NaN

text \<open>
  \<^verbatim>\<open>np.array([...]).reshape(1, -1)\<close> is an array of one row; the row is the model of it.
\<close>

type_synonym ndarray = "float64 list"

text \<open>
  What \<^verbatim>\<open>joblib.load\<close> may give back: \<^verbatim>\<open>None\<close>, an object with a \<^verbatim>\<open>transform\<close>
  method, an object with a \<^verbatim>\<open>predict\<close> method, or an object with neither (the label
  encoders, which \<^verbatim>\<open>main\<close> never uses).  The methods belong to the artifacts, not to this
  program: they are parameters, and they may raise.
\<close>

datatype pyobj =
    PyNone
  | Scaler "ndarray \<Rightarrow> exn + ndarray"
  | Model "ndarray \<Rightarrow> exn + ndarray"
  | Encoders

text \<open>\<^verbatim>\<open>x is None\<close>\<close>

fun is_None :: "pyobj \<Rightarrow> bool" where
  "is_None PyNone = True"
| "is_None _ = False"

datatype event =
    StError string
  | StTitle
  | StSubtitle
  | StForm
  | StSuccess float64
  | StInfo string string string string real int
  | StFooter
  | ScalerTransform ndarray
  | ModelPredict ndarray

type_synonym 'a action = "event list \<times> (exn + 'a)"

definition bind_action :: "'a action \<Rightarrow> ('a \<Rightarrow> 'b action) \<Rightarrow> 'b action" where
  "bind_action m f =
     (case m of
        (ev, Inl e) \<Rightarrow> (ev, Inl e)
      | (ev, Inr a) \<Rightarrow> (case f a of (ev', r) \<Rightarrow> (ev @ ev', r)))"

text \<open>\<^verbatim>\<open>scaler.transform(x)\<close> and \<^verbatim>\<open>model.predict(x)\<close>: an object without the method
  raises \<^verbatim>\<open>AttributeError\<close> and nothing is called.\<close>

fun transform :: "pyobj \<Rightarrow> ndarray \<Rightarrow> ndarray action" where
  "transform (Scaler f) x = ([ScalerTransform x], f x)"
| "transform _ x = ([], Inl (Exc AttributeError ''object has no attribute transform''))"

fun predict :: "pyobj \<Rightarrow> ndarray \<Rightarrow> ndarray action" where
  "predict (Model f) x = ([ModelPredict x], f x)"
| "predict _ x = ([], Inl (Exc AttributeError ''object has no attribute predict''))"

text \<open>\<^verbatim>\<open>prediction[0]\<close>\<close>

definition getitem0 :: "ndarray \<Rightarrow> exn + float64" where
  "getitem0 xs = (case xs of [] \<Rightarrow> Inl (Exc IndexError ''index 0 is out of bounds'') | x # _ \<Rightarrow> Inr x)"

section \<open>The vocabularies and \<^verbatim>\<open>list.index\<close>\<close>

definition airline_options :: "string list" where
  "airline_options = [''Air India'', ''AirAsia'', ''GoAir'', ''IndiGo'', ''SpiceJet'', ''Vistara'']"

definition city_options :: "string list" where
  "city_options = [''Bangalore'', ''Chennai'', ''Delhi'', ''Hyderabad'', ''Kolkata'', ''Mumbai'']"

definition class_options :: "string list" where
  "class_options = [''Economy'', ''Business'']"

text \<open>\<^verbatim>\<open>xs.index(v)\<close>: the position of the first element equal to \<open>v\<close>, and
  \<^verbatim>\<open>ValueError\<close> when there is none.\<close>

fun list_index :: "string list \<Rightarrow> string \<Rightarrow> exn + nat" where
  "list_index [] v = Inl (Exc ValueError (v @ '' is not in list''))"
| "list_index (x # xs) v =
     (if x = v then Inr 0
      else (case list_index xs v of Inl e \<Rightarrow> Inl e | Inr i \<Rightarrow> Inr (Suc i)))"

section \<open>\<^verbatim>\<open>datetime.date\<close>\<close>

text \<open>
  \<^verbatim>\<open>st.date_input\<close> returns a \<^verbatim>\<open>datetime.date\<close>, whose constructor admits valid
  calendar dates only (month 1 to 12).  \<^verbatim>\<open>weekday\<close> is the standard library's:
  \<^verbatim>\<open>(self.toordinal() + 6) % 7\<close>, Monday being 0.
\<close>

record date =
  year :: int
  month :: int
  day :: int

definition DAYS_BEFORE_MONTH :: "int list" where
  "DAYS_BEFORE_MONTH = [-1, 0, 31, 59, 90, 120, 151, 181, 212, 243, 273, 304, 334]"

definition is_leap :: "int \<Rightarrow> bool" where
  "is_leap y \<longleftrightarrow> y mod 4 = 0 \<and> (y mod 100 \<noteq> 0 \<or> y mod 400 = 0)"

definition days_before_year :: "int \<Rightarrow> int" where
  "days_before_year yr = (let y = yr - 1 in y * 365 + y div 4 - y div 100 + y div 400)"

definition days_before_month :: "int \<Rightarrow> int \<Rightarrow> int" where
  "days_before_month yr m =
     DAYS_BEFORE_MONTH ! nat m + (if m > 2 \<and> is_leap yr then 1 else 0)"

definition ymd2ord :: "int \<Rightarrow> int \<Rightarrow> int \<Rightarrow> int" where
  "ymd2ord yr m d = days_before_year yr + days_before_month yr m + d"

definition toordinal :: "date \<Rightarrow> int" where
  "toordinal dt = ymd2ord (year dt) (month dt) (day dt)"

definition weekday :: "date \<Rightarrow> int" where
  "weekday dt = (toordinal dt + 6) mod 7"

section \<open>\<^verbatim>\<open>pd.to_datetime(s, format='%H:%M')\<close>\<close>

text \<open>
  The call parses one string with pandas' \<^verbatim>\<open>array_strptime\<close> (pandas 2):
  \<^item> the empty string and the null markers \<^verbatim>\<open>NaT nat NAT nan NaN NAN\<close> give \<^verbatim>\<open>NaT\<close>
    without any matching;
  \<^item> the strings \<^verbatim>\<open>now\<close> and \<^verbatim>\<open>today\<close> give the current local time
    (\<^verbatim>\<open>Timestamp.now()\<close>, \<^verbatim>\<open>Timestamp.today()\<close>), again without any matching: the
    reading of the wall clock at the call is a parameter, its hour and its minute;
  \<^item> otherwise the string is matched from its start against the regular expression of
    the format, \<^verbatim>\<open>(?P<H>2[0-3]|[0-1]\d|\d):(?P<M>[0-5]\d|\d)\<close>, the alternatives being
    tried from left to right with backtracking; no match raises \<^verbatim>\<open>ValueError\<close>;
  \<^item> a match that stops before the end of the string raises \<^verbatim>\<open>ValueError\<close>
    (unconverted data remains);
  \<^item> the result is the time \<^verbatim>\<open>int(H):int(M)\<close> on 1900-01-01.
  Strings are over code points below 256, where the decimal digits are \<^verbatim>\<open>0\<close> to \<^verbatim>\<open>9\<close>.
\<close>

datatype timestamp = Timestamp (ts_hour: nat) (ts_minute: nat) | NaT

text \<open>The attribute \<^verbatim>\<open>.hour\<close>; on \<^verbatim>\<open>NaT\<close> it is \<^verbatim>\<open>nan\<close>.\<close>

fun hour :: "timestamp \<Rightarrow> float64" where
  "hour (Timestamp h m) = Float (real h)"
| "hour NaT = NaN"

definition nat_strings :: "string list" where
  "nat_strings = [''NaT'', ''nat'', ''NAT'', ''nan'', ''NaN'', ''NAN'']"

definition isdigit :: "char \<Rightarrow> bool" where
  "isdigit c \<longleftrightarrow> c \<in> set ''0123456789''"

definition digit_value :: "char \<Rightarrow> nat" where
  "digit_value c = of_char c - 48"

text \<open>\<^verbatim>\<open>int(s)\<close> on a string of digits.\<close>

definition int_of_digits :: "string \<Rightarrow> nat" where
  "int_of_digits s = foldl (\<lambda>n c. 10 * n + digit_value c) 0 s"

text \<open>Every way a group matches a prefix of the string, in the order the regular
  expression tries them: the value of the group and the rest of the string.\<close>

definition H_group :: "string \<Rightarrow> (nat \<times> string) list" where
  "H_group s =
     (case s of
        a # b # r \<Rightarrow>
          (if a = CHR ''2'' \<and> b \<in> set ''0123'' then [(int_of_digits [a, b], r)] else [])
          @ (if a \<in> set ''01'' \<and> isdigit b then [(int_of_digits [a, b], r)] else [])
          @ (if isdigit a then [(int_of_digits [a], b # r)] else [])
      | [a] \<Rightarrow> (if isdigit a then [(int_of_digits [a], [])] else [])
      | [] \<Rightarrow> [])"

definition M_group :: "string \<Rightarrow> (nat \<times> string) list" where
  "M_group s =
     (case s of
        a # b # r \<Rightarrow>
          (if a \<in> set ''012345'' \<and> isdigit b then [(int_of_digits [a, b], r)] else [])
          @ (if isdigit a then [(int_of_digits [a], b # r)] else [])
      | [a] \<Rightarrow> (if isdigit a then [(int_of_digits [a], [])] else [])
      | [] \<Rightarrow> [])"

definition colon :: "string \<Rightarrow> string list" where
  "colon s = (case s of c # r \<Rightarrow> (if c = CHR '':'' then [r] else []) | [] \<Rightarrow> [])"

text \<open>All matches of the whole expression at the start of the string, the preferred one
  first: hour, minute and what is left of the string.\<close>

definition format_regex_match :: "string \<Rightarrow> (nat \<times> nat \<times> string) list" where
  "format_regex_match s =
     concat (map (\<lambda>(h, r1).
       concat (map (\<lambda>r2.
         map (\<lambda>(m, r3). (h, m, r3)) (M_group r2)) (colon r1))) (H_group s))"

definition to_datetime :: "nat \<times> nat \<Rightarrow> string \<Rightarrow> exn + timestamp" where
  "to_datetime now val =
     (if val = [] \<or> val \<in> set nat_strings then Inr NaT
      else if val = ''now'' \<or> val = ''today'' then Inr (Timestamp (fst now) (snd now))
      else (case format_regex_match val of
              [] \<Rightarrow> Inl (Exc ValueError ''time data does not match format %H:%M'')
            | (h, m, rest) # _ \<Rightarrow>
                if rest \<noteq> [] then Inl (Exc ValueError ''unconverted data remains'')
                else Inr (Timestamp h m)))"

section \<open>\<^verbatim>\<open>load_artifacts\<close>\<close>

text \<open>
  The file system is the parameter \<open>joblib_load\<close>: what \<^verbatim>\<open>joblib.load\<close> does on a file
  name.  The three loads run in order inside one \<^verbatim>\<open>try\<close>; only \<^verbatim>\<open>FileNotFoundError\<close> is
  caught, any other exception leaves the function.  The decorator
  \<^verbatim>\<open>st.cache_resource\<close> keeps the result for later runs; this is the first run, where
  the body is executed.
\<close>

definition files_not_found_msg :: string where
  "files_not_found_msg = ''Model files not found. Please ensure all .joblib files are uploaded.''"

definition load_artifacts :: "(string \<Rightarrow> exn + pyobj) \<Rightarrow> (pyobj \<times> pyobj \<times> pyobj) action" where
  "load_artifacts joblib_load =
     (case (case joblib_load ''flight_fare_model.joblib'' of
              Inl e \<Rightarrow> Inl e
            | Inr model \<Rightarrow>
            (case joblib_load ''scaler.joblib'' of
              Inl e \<Rightarrow> Inl e
            | Inr scaler \<Rightarrow>
            (case joblib_load ''label_encoders.joblib'' of
              Inl e \<Rightarrow> Inl e
            | Inr label_encoders \<Rightarrow> Inr (model, scaler, label_encoders))))
      of
        Inr r \<Rightarrow> ([], Inr r)
      | Inl e \<Rightarrow>
          if exc_class e = FileNotFoundError
          then ([StError files_not_found_msg], Inr (PyNone, PyNone, PyNone))
          else ([], Inl e))"

section \<open>\<^verbatim>\<open>main\<close>\<close>

text \<open>
  The wall clock of a run: what the clock reads when \<^verbatim>\<open>pd.to_datetime\<close> is called on
  the departure time (line 70) and when it is called on the arrival time (line 71).
\<close>

record wall_clock =
  now_at_departure :: "nat \<times> nat"
  now_at_arrival :: "nat \<times> nat"

record form_input =
  airline :: string
  source_city :: string
  destination_city :: string
  departure_time :: string
  arrival_time :: string
  duration :: real
  total_stops :: int
  flight_class :: string
  journey_date :: date
  predict_button :: bool

text \<open>Lines 64 to 94: the date features, the time features, the four encodings and the
  input array.  Nothing here draws on the page or calls an artifact.\<close>

definition prepare_input :: "wall_clock \<Rightarrow> form_input \<Rightarrow> exn + ndarray" where
  "prepare_input clock inp =
     (let journey_month = month (journey_date inp);
          journey_day = day (journey_date inp);
          journey_dayofweek = weekday (journey_date inp)
      in
      (case to_datetime (now_at_departure clock) (departure_time inp) of Inl e \<Rightarrow> Inl e | Inr dep_time \<Rightarrow>
      (case to_datetime (now_at_arrival clock) (arrival_time inp) of Inl e \<Rightarrow> Inl e | Inr arr_time \<Rightarrow>
      (let departure_hour = hour dep_time;
           arrival_hour = hour arr_time
       in
      (case list_index airline_options (airline inp) of Inl e \<Rightarrow> Inl e | Inr airline_enc \<Rightarrow>
      (case list_index city_options (source_city inp) of Inl e \<Rightarrow> Inl e | Inr source_city_enc \<Rightarrow>
      (case list_index city_options (destination_city inp) of Inl e \<Rightarrow> Inl e | Inr destination_city_enc \<Rightarrow>
      (case list_index class_options (flight_class inp) of Inl e \<Rightarrow> Inl e | Inr class_enc \<Rightarrow>
      Inr [Float (real airline_enc),
           Float (real source_city_enc),
           Float (real destination_city_enc),
           Float (duration inp),
           Float (real_of_int (total_stops inp)),
           Float (real class_enc),
           Float (real_of_int journey_month),
           Float (real_of_int journey_day),
           Float (real_of_int journey_dayofweek),
           departure_hour,
           arrival_hour]))))))))"

text \<open>The body of the \<^verbatim>\<open>try\<close>, lines 64 to 111.\<close>

definition try_body :: "pyobj \<Rightarrow> pyobj \<Rightarrow> wall_clock \<Rightarrow> form_input \<Rightarrow> unit action" where
  "try_body model scaler clock inp =
     bind_action ([], prepare_input clock inp) (\<lambda>input_data.
     bind_action (transform scaler input_data) (\<lambda>scaled_input.
     bind_action (predict model scaled_input) (\<lambda>prediction.
     bind_action ([], getitem0 prediction) (\<lambda>fare.
       ([StSuccess fare,
         StInfo (source_city inp) (destination_city inp) (airline inp) (flight_class inp)
                (duration inp) (total_stops inp)],
        Inr ())))))"

text \<open>The messages of \<^verbatim>\<open>main\<close>, written without their leading pictograph.\<close>

definition same_city_msg :: string where
  "same_city_msg = ''Source and destination cities cannot be the same!''"

definition invalid_time_msg :: string where
  "invalid_time_msg = ''Invalid time format. Please use HH:MM format (e.g., 14:30)''"

definition generic_msg :: "exn \<Rightarrow> string" where
  "generic_msg e = ''An error occurred: '' @ exc_str e"

text \<open>How a run of the script ends: \<^verbatim>\<open>main\<close> returns, \<^verbatim>\<open>st.stop()\<close> ends the run, or
  an exception leaves \<^verbatim>\<open>main\<close> uncaught.\<close>

datatype outcome = Returned | Stopped | Raised exn

definition main ::
  "(string \<Rightarrow> exn + pyobj) \<Rightarrow> wall_clock \<Rightarrow> form_input \<Rightarrow> event list \<times> outcome" where
  "main joblib_load clock inp =
     (case load_artifacts joblib_load of
        (ev0, Inl e) \<Rightarrow> (ev0, Raised e)
      | (ev0, Inr (model, scaler, label_encoders)) \<Rightarrow>
          if is_None model then (ev0, Stopped)
          else
            let page = ev0 @ [StTitle, StSubtitle, StForm] in
            if predict_button inp then
              if source_city inp = destination_city inp
              then (page @ [StError same_city_msg], Returned)
              else
                (case try_body model scaler clock inp of
                   (ev, Inr u) \<Rightarrow> (page @ ev @ [StFooter], Returned)
                 | (ev, Inl e) \<Rightarrow>
                     if isinstance_ValueError e
                     then (page @ ev @ [StError invalid_time_msg, StFooter], Returned)
                     else if isinstance_Exception e
                     then (page @ ev @ [StError (generic_msg e), StFooter], Returned)
                     else (page @ ev, Raised e))
            else (page @ [StFooter], Returned))"

section \<open>A concrete run\<close>

text \<open>
  Artifacts and a query to run the script on: a scaler that leaves the row as it is, a
  model that answers 5000 whatever the row, and the scenario of the specification
  (IndiGo, Delhi to Mumbai, two hours, no stop, Economy, Friday 2024-03-15, 10:00 to 12:00).
\<close>

definition example_scaler :: "ndarray \<Rightarrow> exn + ndarray" where
  "example_scaler x = Inr x"

definition example_model :: "ndarray \<Rightarrow> exn + ndarray" where
  "example_model x = Inr [Float 5000]"

definition example_joblib_load :: "string \<Rightarrow> exn + pyobj" where
  "example_joblib_load f =
     (if f = ''flight_fare_model.joblib'' then Inr (Model example_model)
      else if f = ''scaler.joblib'' then Inr (Scaler example_scaler)
      else if f = ''label_encoders.joblib'' then Inr Encoders
      else Inl (Exc FileNotFoundError f))"

definition example_query :: form_input where
  "example_query =
     \<lparr>airline = ''IndiGo'', source_city = ''Delhi'', destination_city = ''Mumbai'',
      departure_time = ''10:00'', arrival_time = ''12:00'', duration = 2, total_stops = 0,
      flight_class = ''Economy'', journey_date = \<lparr>year = 2024, month = 3, day = 15\<rparr>,
      predict_button = True\<rparr>"

text \<open>A wall clock for the runs that are evaluated: 09:41 at both calls.\<close>

definition example_clock :: wall_clock where
  "example_clock = \<lparr>now_at_departure = (9, 41), now_at_arrival = (9, 41)\<rparr>"

text \<open>
  File systems for the start of the script: the file of the scaler is missing; the file of
  the model is there but cannot be unpickled; and both at once.
\<close>

definition artifact_files :: "string list" where
  "artifact_files = [''flight_fare_model.joblib'', ''scaler.joblib'', ''label_encoders.joblib'']"

definition missing_scaler_load :: "string \<Rightarrow> exn + pyobj" where
  "missing_scaler_load f =
     (if f = ''scaler.joblib'' then Inl (Exc FileNotFoundError f) else example_joblib_load f)"

definition unreadable_model_load :: "string \<Rightarrow> exn + pyobj" where
  "unreadable_model_load f =
     (if f = ''flight_fare_model.joblib'' then Inl (Exc OtherException ''invalid load key'')
      else example_joblib_load f)"

definition unreadable_model_missing_scaler_load :: "string \<Rightarrow> exn + pyobj" where
  "unreadable_model_missing_scaler_load f =
     (if f = ''flight_fare_model.joblib'' then Inl (Exc OtherException ''invalid load key'')
      else missing_scaler_load f)"

section \<open>Evaluation rules\<close>

lemmas strptime_defs =
  to_datetime_def nat_strings_def format_regex_match_def H_group_def M_group_def colon_def
  isdigit_def int_of_digits_def digit_value_def

lemmas vocabulary_defs = airline_options_def city_options_def class_options_def

lemmas date_defs =
  weekday_def toordinal_def ymd2ord_def days_before_year_def days_before_month_def
  DAYS_BEFORE_MONTH_def is_leap_def

section \<open>Facts about \<^verbatim>\<open>list.index\<close>\<close>

lemma list_index_member:
  "v \<in> set xs \<Longrightarrow> \<exists>i. list_index xs v = Inr i \<and> i < length xs \<and> xs ! i = v"
  by (induction xs) auto

lemma list_index_not_member:
  "v \<notin> set xs \<Longrightarrow> \<exists>e. list_index xs v = Inl e \<and> exc_class e = ValueError"
  by (induction xs) auto

text \<open>
  Claim C7.  For every name of a vocabulary (airlines, cities, classes), encoding it to its
  position with \<^verbatim>\<open>index\<close> succeeds, and reading the vocabulary at that position gives
  the name back.
\<close>

theorem vocabulary_round_trip:
  assumes "vocab \<in> {airline_options, city_options, class_options}"
    and "v \<in> set vocab"
  shows "\<exists>i. list_index vocab v = Inr i \<and> i < length vocab \<and> vocab ! i = v"
  using assms(2) by (rule list_index_member)

theorem vocabulary_round_trip_witness:
  "city_options \<in> {airline_options, city_options, class_options}
   \<and> ''Mumbai'' \<in> set city_options
   \<and> (\<exists>i. list_index city_options ''Mumbai'' = Inr i \<and> i < length city_options
          \<and> city_options ! i = ''Mumbai'')"
proof -
  have a: "city_options \<in> {airline_options, city_options, class_options}" by simp
  have b: "''Mumbai'' \<in> set city_options" by (simp add: city_options_def)
  show ?thesis using a b vocabulary_round_trip [OF a b] by blast
qed

section \<open>Facts about the parse of a time\<close>

lemma isdigit_cases:
  "isdigit c \<Longrightarrow> c = CHR ''0'' \<or> c = CHR ''1'' \<or> c = CHR ''2'' \<or> c = CHR ''3'' \<or> c = CHR ''4''
     \<or> c = CHR ''5'' \<or> c = CHR ''6'' \<or> c = CHR ''7'' \<or> c = CHR ''8'' \<or> c = CHR ''9''"
  by (simp add: isdigit_def)

lemma isdigit_not_colon: "isdigit c \<Longrightarrow> c \<noteq> CHR '':''"
  by (auto simp: isdigit_def)

lemma H_group_two_digit:
  assumes "isdigit a" "isdigit b" "10 * digit_value a + digit_value b < 24"
  shows "H_group (a # b # r) =
           [(10 * digit_value a + digit_value b, r), (digit_value a, b # r)]"
proof -
  consider "a = CHR ''0''" | "a = CHR ''1''" | "a = CHR ''2''"
    using isdigit_cases[OF assms(1)] assms(3) by (auto simp: digit_value_def)
  then show ?thesis
  proof cases
    case 1
    then show ?thesis using assms(2) by (simp add: H_group_def int_of_digits_def isdigit_def)
  next
    case 2
    then show ?thesis using assms(2) by (simp add: H_group_def int_of_digits_def isdigit_def)
  next
    case 3
    then have "b \<in> set ''0123''"
      using isdigit_cases[OF assms(2)] assms(3) by (auto simp: digit_value_def)
    with 3 show ?thesis by (simp add: H_group_def int_of_digits_def isdigit_def)
  qed
qed

lemma regex_two_digit_hour:
  assumes "isdigit a" "isdigit b" "10 * digit_value a + digit_value b < 24"
  shows "format_regex_match (a # b # CHR '':'' # r) =
           map (\<lambda>(m, r3). (10 * digit_value a + digit_value b, m, r3)) (M_group r)"
  using isdigit_not_colon[OF assms(2)]
  by (simp add: format_regex_match_def H_group_two_digit[OF assms] colon_def)

lemma M_group_two_digit:
  assumes "isdigit c" "isdigit d" "10 * digit_value c + digit_value d < 60"
  shows "M_group [c, d] = [(10 * digit_value c + digit_value d, []), (digit_value c, [d])]"
proof -
  have c: "c \<in> set ''012345''"
    using isdigit_cases[OF assms(1)] assms(3) by (auto simp: digit_value_def)
  show ?thesis using c assms(1,2) by (simp add: M_group_def int_of_digits_def)
qed

lemma to_datetime_HH_MM:
  assumes "isdigit a" "isdigit b" "isdigit c" "isdigit d"
    and "10 * digit_value a + digit_value b < 24"
    and "10 * digit_value c + digit_value d < 60"
  shows "to_datetime now [a, b, CHR '':'', c, d] =
           Inr (Timestamp (10 * digit_value a + digit_value b) (10 * digit_value c + digit_value d))"
  by (simp add: to_datetime_def nat_strings_def
        regex_two_digit_hour[OF assms(1,2,5)] M_group_two_digit[OF assms(3,4,6)])

text \<open>The words \<^verbatim>\<open>now\<close> and \<^verbatim>\<open>today\<close> are not matched against the format: the
  result is the reading of the wall clock.\<close>

lemma now_and_today_read_the_clock:
  "to_datetime now ''now'' = Inr (Timestamp (fst now) (snd now))"
  "to_datetime now ''today'' = Inr (Timestamp (fst now) (snd now))"
  by (simp_all add: to_datetime_def nat_strings_def)

text \<open>
  Claim C5.  A time written as two digits, a colon and two digits, with the hour below 24
  and the minute below 60, parses, and the hour feature derived from it is the hour the
  two digits write, a whole number from 0 to 23, whatever the minutes are: the minutes
  are dropped, not rounded.
\<close>

theorem hour_feature_truncates:
  assumes "isdigit a" "isdigit b" "isdigit c" "isdigit d"
    and "10 * digit_value a + digit_value b < 24"
    and "10 * digit_value c + digit_value d < 60"
  shows "\<exists>t h. to_datetime now [a, b, CHR '':'', c, d] = Inr t \<and> hour t = Float (real h)
           \<and> h = 10 * digit_value a + digit_value b \<and> h \<le> 23"
  using assms(5) by (simp add: to_datetime_HH_MM[OF assms])

theorem hour_feature_truncates_witness:
  "isdigit CHR ''1'' \<and> isdigit CHR ''4'' \<and> isdigit CHR ''3'' \<and> isdigit CHR ''0''
   \<and> 10 * digit_value CHR ''1'' + digit_value CHR ''4'' < 24
   \<and> 10 * digit_value CHR ''3'' + digit_value CHR ''0'' < 60
   \<and> (\<exists>t. to_datetime (now_at_departure example_clock) ''14:30'' = Inr t \<and> hour t = Float 14)"
proof -
  have d: "isdigit CHR ''1''" "isdigit CHR ''4''" "isdigit CHR ''3''" "isdigit CHR ''0''"
    by (simp_all add: isdigit_def)
  have h: "10 * digit_value CHR ''1'' + digit_value CHR ''4'' < 24"
    by (simp add: digit_value_def)
  have m: "10 * digit_value CHR ''3'' + digit_value CHR ''0'' < 60"
    by (simp add: digit_value_def)
  have v: "10 * digit_value CHR ''1'' + digit_value CHR ''4'' = 14"
    by (simp add: digit_value_def)
  from hour_feature_truncates [OF d h m] v
  have "\<exists>t. to_datetime (now_at_departure example_clock) ''14:30'' = Inr t \<and> hour t = Float 14" by auto
  with d h m show ?thesis by simp
qed

section \<open>Facts about the script\<close>

lemma try_body_raises:
  "prepare_input clock inp = Inl e \<Longrightarrow> try_body model scaler clock inp = ([], Inl e)"
  by (simp add: try_body_def bind_action_def)

lemma try_body_scaler_called:
  "prepare_input clock inp = Inr v \<Longrightarrow>
     \<exists>rest r. try_body model (Scaler g) clock inp = (ScalerTransform v # rest, r)"
  by (cases "g v") (auto simp: try_body_def bind_action_def split: prod.splits sum.splits)

lemma example_load:
  "load_artifacts example_joblib_load = ([], Inr (Model example_model, Scaler example_scaler, Encoders))"
  by (simp add: load_artifacts_def example_joblib_load_def)

lemma example_prepare_input:
  "prepare_input clock example_query =
     Inr [Float 3, Float 2, Float 5, Float 2, Float 0, Float 0, Float 3, Float 15, Float 4,
          Float 10, Float 12]"
  by (simp add: prepare_input_def example_query_def strptime_defs vocabulary_defs date_defs)

lemma example_query_fields:
  "predict_button example_query"
  "source_city example_query = ''Delhi''"
  "destination_city example_query = ''Mumbai''"
  "airline example_query = ''IndiGo''"
  "flight_class example_query = ''Economy''"
  "duration example_query = 2"
  "total_stops example_query = 0"
  by (simp_all add: example_query_def)

lemma example_try_body:
  "try_body (Model example_model) (Scaler example_scaler) clock example_query =
     ([ScalerTransform [Float 3, Float 2, Float 5, Float 2, Float 0, Float 0, Float 3, Float 15,
                        Float 4, Float 10, Float 12],
       ModelPredict [Float 3, Float 2, Float 5, Float 2, Float 0, Float 0, Float 3, Float 15,
                     Float 4, Float 10, Float 12],
       StSuccess (Float 5000),
       StInfo ''Delhi'' ''Mumbai'' ''IndiGo'' ''Economy'' 2 0], Inr ())"
  by (simp add: try_body_def bind_action_def example_prepare_input example_scaler_def
        example_model_def getitem0_def example_query_fields)

lemma example_run:
  "main example_joblib_load clock example_query =
     ([StTitle, StSubtitle, StForm,
       ScalerTransform [Float 3, Float 2, Float 5, Float 2, Float 0, Float 0, Float 3, Float 15,
                        Float 4, Float 10, Float 12],
       ModelPredict [Float 3, Float 2, Float 5, Float 2, Float 0, Float 0, Float 3, Float 15,
                     Float 4, Float 10, Float 12],
       StSuccess (Float 5000),
       StInfo ''Delhi'' ''Mumbai'' ''IndiGo'' ''Economy'' 2 0,
       StFooter], Returned)"
  by (simp add: main_def example_load example_try_body example_query_fields)

lemma load_artifacts_cases:
  "(\<exists>m s le. load_artifacts jl = ([], Inr (m, s, le))
       \<and> jl ''flight_fare_model.joblib'' = Inr m \<and> jl ''scaler.joblib'' = Inr s
       \<and> jl ''label_encoders.joblib'' = Inr le)
   \<or> load_artifacts jl = ([StError files_not_found_msg], Inr (PyNone, PyNone, PyNone))
   \<or> (\<exists>e. load_artifacts jl = ([], Inl e) \<and> exc_class e \<noteq> FileNotFoundError)"
  by (simp add: load_artifacts_def split: sum.splits)

lemma main_not_loaded:
  "load_artifacts jl = ([StError files_not_found_msg], Inr (PyNone, PyNone, PyNone)) \<Longrightarrow>
     main jl clock inp = ([StError files_not_found_msg], Stopped)"
  "load_artifacts jl = ([], Inl e) \<Longrightarrow> main jl clock inp = ([], Raised e)"
  "load_artifacts jl = ([], Inr (m, s, le)) \<Longrightarrow> is_None m \<Longrightarrow> main jl clock inp = ([], Stopped)"
  by (simp_all add: main_def)

lemma main_same_city:
  "load_artifacts jl = ([], Inr (m, s, le)) \<Longrightarrow> \<not> is_None m \<Longrightarrow> predict_button inp \<Longrightarrow>
   source_city inp = destination_city inp \<Longrightarrow>
     main jl clock inp = ([StTitle, StSubtitle, StForm, StError same_city_msg], Returned)"
  by (simp add: main_def)

lemma main_not_pressed:
  "load_artifacts jl = ([], Inr (m, s, le)) \<Longrightarrow> \<not> is_None m \<Longrightarrow> \<not> predict_button inp \<Longrightarrow>
     main jl clock inp = ([StTitle, StSubtitle, StForm, StFooter], Returned)"
  by (simp add: main_def)

lemma main_try:
  "load_artifacts jl = ([], Inr (m, s, le)) \<Longrightarrow> \<not> is_None m \<Longrightarrow> predict_button inp \<Longrightarrow>
   source_city inp \<noteq> destination_city inp \<Longrightarrow>
     main jl clock inp =
       (case try_body m s clock inp of
          (ev, Inr u) \<Rightarrow> ([StTitle, StSubtitle, StForm] @ ev @ [StFooter], Returned)
        | (ev, Inl e) \<Rightarrow>
            if isinstance_ValueError e
            then ([StTitle, StSubtitle, StForm] @ ev @ [StError invalid_time_msg, StFooter], Returned)
            else if isinstance_Exception e
            then ([StTitle, StSubtitle, StForm] @ ev @ [StError (generic_msg e), StFooter], Returned)
            else ([StTitle, StSubtitle, StForm] @ ev, Raised e))"
  by (simp add: main_def split: prod.splits sum.splits)

lemma main_try_events:
  assumes "load_artifacts jl = ([], Inr (m, s, le))" "\<not> is_None m" "predict_button inp"
    "source_city inp \<noteq> destination_city inp" "try_body m s clock inp = (ev, r)"
  shows "\<exists>tail out. main jl clock inp = ([StTitle, StSubtitle, StForm] @ ev @ tail, out)"
  using assms(5) by (cases r) (simp_all add: main_try[OF assms(1-4)])

lemma main_prepare_raises_ValueError:
  assumes "load_artifacts jl = ([], Inr (m, s, le))" "\<not> is_None m" "predict_button inp"
    "source_city inp \<noteq> destination_city inp"
    "prepare_input clock inp = Inl e" "exc_class e = ValueError"
  shows "main jl clock inp = ([StTitle, StSubtitle, StForm, StError invalid_time_msg, StFooter], Returned)"
  by (simp add: main_try[OF assms(1-4)] try_body_raises[OF assms(5)] isinstance_ValueError_def assms(6))

lemma to_datetime_raises_ValueError:
  "to_datetime now s = Inl e \<Longrightarrow> exc_class e = ValueError"
  by (auto simp: to_datetime_def split: if_splits list.splits prod.splits)

lemma list_index_raises_ValueError:
  "list_index xs v = Inl e \<Longrightarrow> exc_class e = ValueError"
  by (induction xs) (auto split: if_splits sum.splits)

lemma prepare_input_raises_ValueError:
  "prepare_input clock inp = Inl e \<Longrightarrow> exc_class e = ValueError"
  by (auto simp: prepare_input_def Let_def split: sum.splits
      dest: to_datetime_raises_ValueError list_index_raises_ValueError)

lemma prepare_input_time_raises:
  "to_datetime (now_at_departure clock) (departure_time inp) = Inl e \<Longrightarrow> prepare_input clock inp = Inl e"
  "to_datetime (now_at_departure clock) (departure_time inp) = Inr t \<Longrightarrow> to_datetime (now_at_arrival clock) (arrival_time inp) = Inl e \<Longrightarrow>
     prepare_input clock inp = Inl e"
  by (simp_all add: prepare_input_def)

lemma prepare_input_unknown_category:
  assumes "airline inp \<notin> set airline_options \<or> source_city inp \<notin> set city_options
           \<or> destination_city inp \<notin> set city_options \<or> flight_class inp \<notin> set class_options"
  shows "\<exists>e. prepare_input clock inp = Inl e"
proof (cases "prepare_input clock inp")
  case (Inl e)
  then show ?thesis by blast
next
  case (Inr v)
  then obtain a s d c where
    "list_index airline_options (airline inp) = Inr a"
    "list_index city_options (source_city inp) = Inr s"
    "list_index city_options (destination_city inp) = Inr d"
    "list_index class_options (flight_class inp) = Inr c"
    by (auto simp: prepare_input_def Let_def split: sum.splits)
  then have "airline inp \<in> set airline_options" "source_city inp \<in> set city_options"
    "destination_city inp \<in> set city_options" "flight_class inp \<in> set class_options"
    using list_index_not_member by fastforce+
  with assms show ?thesis by blast
qed

lemma main_when_prepare_raises:
  assumes "prepare_input clock inp = Inl e"
  shows "(StForm \<notin> set (fst (main jl clock inp)) \<and> set (fst (main jl clock inp)) \<subseteq> {StError files_not_found_msg})
       \<or> (\<not> predict_button inp \<and> main jl clock inp = ([StTitle, StSubtitle, StForm, StFooter], Returned))
       \<or> main jl clock inp = ([StTitle, StSubtitle, StForm, StError same_city_msg], Returned)
       \<or> main jl clock inp = ([StTitle, StSubtitle, StForm, StError invalid_time_msg, StFooter], Returned)"
proof -
  have v: "exc_class e = ValueError" using assms by (rule prepare_input_raises_ValueError)
  consider (ok) m s le where "load_artifacts jl = ([], Inr (m, s, le))"
    | (missing) "load_artifacts jl = ([StError files_not_found_msg], Inr (PyNone, PyNone, PyNone))"
    | (raised) e' where "load_artifacts jl = ([], Inl e')"
    using load_artifacts_cases[of jl] by blast
  then show ?thesis
  proof cases
    case ok
    show ?thesis
    proof (cases "is_None m")
      case True
      then show ?thesis by (simp add: main_not_loaded(3)[OF ok])
    next
      case notNone: False
      show ?thesis
      proof (cases "predict_button inp")
        case False
        then show ?thesis by (simp add: main_not_pressed[OF ok notNone])
      next
        case pressed: True
        show ?thesis
        proof (cases "source_city inp = destination_city inp")
          case True
          then show ?thesis by (simp add: main_same_city[OF ok notNone pressed])
        next
          case False
          then show ?thesis
            by (simp add: main_prepare_raises_ValueError[OF ok notNone pressed False assms v])
        qed
      qed
    qed
  next
    case missing
    then show ?thesis by (simp add: main_not_loaded(1))
  next
    case raised
    then show ?thesis by (simp add: main_not_loaded(2))
  qed
qed

lemma example_main:
  assumes "predict_button inp" "source_city inp \<noteq> destination_city inp"
    "prepare_input clock inp = Inr v"
  shows "main example_joblib_load clock inp =
     ([StTitle, StSubtitle, StForm, ScalerTransform v, ModelPredict v, StSuccess (Float 5000),
       StInfo (source_city inp) (destination_city inp) (airline inp) (flight_class inp)
              (duration inp) (total_stops inp),
       StFooter], Returned)"
proof -
  have n: "\<not> is_None (Model example_model)" by simp
  have t: "try_body (Model example_model) (Scaler example_scaler) clock inp =
     ([ScalerTransform v, ModelPredict v, StSuccess (Float 5000),
       StInfo (source_city inp) (destination_city inp) (airline inp) (flight_class inp)
              (duration inp) (total_stops inp)], Inr ())"
    by (simp add: try_body_def bind_action_def assms(3) example_scaler_def example_model_def
          getitem0_def)
  show ?thesis by (simp add: main_try[OF example_load n assms(1,2)] t)
qed

section \<open>The claims about the pipeline\<close>

text \<open>
  Claim C3.  When the form is submitted with the source city equal to the destination
  city, the run is the page, the form and the message that the two cities cannot be the
  same, and nothing else, whatever the other fields hold (also times that do not parse
  and names outside the vocabularies: nothing is derived from them); and in no case is
  the scaler or the model called.
\<close>

theorem same_city_rejected:
  assumes "source_city inp = destination_city inp" and "predict_button inp"
  shows "(StForm \<in> set (fst (main jl clock inp)) \<longrightarrow>
            main jl clock inp = ([StTitle, StSubtitle, StForm, StError same_city_msg], Returned))
       \<and> (\<forall>x. ScalerTransform x \<notin> set (fst (main jl clock inp))
              \<and> ModelPredict x \<notin> set (fst (main jl clock inp)))"
proof -
  consider (ok) m s le where "load_artifacts jl = ([], Inr (m, s, le))"
    | (missing) "load_artifacts jl = ([StError files_not_found_msg], Inr (PyNone, PyNone, PyNone))"
    | (raised) e' where "load_artifacts jl = ([], Inl e')"
    using load_artifacts_cases[of jl] by blast
  then show ?thesis
  proof cases
    case ok
    show ?thesis
    proof (cases "is_None m")
      case True
      then show ?thesis by (simp add: main_not_loaded(3)[OF ok])
    next
      case False
      then show ?thesis by (simp add: main_same_city[OF ok False assms(2,1)])
    qed
  next
    case missing
    then show ?thesis by (simp add: main_not_loaded(1))
  next
    case raised
    then show ?thesis by (simp add: main_not_loaded(2))
  qed
qed

theorem same_city_rejected_witness:
  "source_city (example_query\<lparr>destination_city := ''Delhi'', departure_time := ''abc''\<rparr>)
     = destination_city (example_query\<lparr>destination_city := ''Delhi'', departure_time := ''abc''\<rparr>)
   \<and> predict_button (example_query\<lparr>destination_city := ''Delhi'', departure_time := ''abc''\<rparr>)
   \<and> StForm \<in> set (fst (main example_joblib_load example_clock
         (example_query\<lparr>destination_city := ''Delhi'', departure_time := ''abc''\<rparr>)))
   \<and> main example_joblib_load example_clock (example_query\<lparr>destination_city := ''Delhi'', departure_time := ''abc''\<rparr>)
       = ([StTitle, StSubtitle, StForm, StError same_city_msg], Returned)"
proof -
  let ?q = "example_query\<lparr>destination_city := ''Delhi'', departure_time := ''abc''\<rparr>"
  have a: "source_city ?q = destination_city ?q" by (simp add: example_query_def)
  have b: "predict_button ?q" by (simp add: example_query_def)
  have n: "\<not> is_None (Model example_model)" by simp
  have f: "StForm \<in> set (fst (main example_joblib_load example_clock ?q))"
    by (simp add: main_same_city[OF example_load n b a])
  from same_city_rejected [where jl = example_joblib_load and clock = example_clock, OF a b] f
  have "main example_joblib_load example_clock ?q = ([StTitle, StSubtitle, StForm, StError same_city_msg], Returned)"
    by blast
  with a b f show ?thesis by blast
qed

text \<open>
  A name outside its vocabulary makes the derivation of the features raise, with the
  class \<^verbatim>\<open>ValueError\<close>: no code is put in the place of the unknown name and no row
  is built.  The scaler and the model are then not called and no fare is shown.
\<close>

lemma unknown_category_raises:
  assumes "airline inp \<notin> set airline_options \<or> source_city inp \<notin> set city_options
           \<or> destination_city inp \<notin> set city_options \<or> flight_class inp \<notin> set class_options"
  shows "(\<exists>e. prepare_input clock inp = Inl e \<and> exc_class e = ValueError)
       \<and> (\<forall>x. ScalerTransform x \<notin> set (fst (main jl clock inp))
              \<and> ModelPredict x \<notin> set (fst (main jl clock inp)))
       \<and> (\<forall>y. StSuccess y \<notin> set (fst (main jl clock inp)))"
proof -
  obtain e where e: "prepare_input clock inp = Inl e"
    using prepare_input_unknown_category[OF assms] by blast
  have v: "exc_class e = ValueError" using e by (rule prepare_input_raises_ValueError)
  from main_when_prepare_raises[OF e, of jl]
  have "(\<forall>x. ScalerTransform x \<notin> set (fst (main jl clock inp))
              \<and> ModelPredict x \<notin> set (fst (main jl clock inp)))
       \<and> (\<forall>y. StSuccess y \<notin> set (fst (main jl clock inp)))"
    by (elim disjE) auto
  with e v show ?thesis by blast
qed


text \<open>
  Claim C6.  For the scenario of the specification (IndiGo, Delhi to Mumbai, duration 2.0,
  no stop, Economy, 2024-03-15, departure 10:00, arrival 12:00) the positions in the
  vocabularies are 3, 2, 5 and 0, the day of the week is 4 (Monday being 0), the feature
  vector is [3, 2, 5, 2.0, 0, 0, 3, 15, 4, 10, 12], and this is the row the scaler is
  called with.
\<close>

theorem scenario_feature_vector:
  "list_index airline_options (airline example_query) = Inr 3
   \<and> list_index city_options (source_city example_query) = Inr 2
   \<and> list_index city_options (destination_city example_query) = Inr 5
   \<and> list_index class_options (flight_class example_query) = Inr 0
   \<and> weekday (journey_date example_query) = 4
   \<and> prepare_input clock example_query =
        Inr [Float 3, Float 2, Float 5, Float 2, Float 0, Float 0, Float 3, Float 15, Float 4,
             Float 10, Float 12]
   \<and> ScalerTransform [Float 3, Float 2, Float 5, Float 2, Float 0, Float 0, Float 3, Float 15,
                       Float 4, Float 10, Float 12]
        \<in> set (fst (main example_joblib_load clock example_query))"
proof -
  have "list_index airline_options (airline example_query) = Inr 3"
    by (simp add: example_query_def airline_options_def)
  moreover have "list_index city_options (source_city example_query) = Inr 2"
    by (simp add: example_query_def city_options_def)
  moreover have "list_index city_options (destination_city example_query) = Inr 5"
    by (simp add: example_query_def city_options_def)
  moreover have "list_index class_options (flight_class example_query) = Inr 0"
    by (simp add: example_query_def class_options_def)
  moreover have "weekday (journey_date example_query) = 4"
    by (simp add: example_query_def date_defs)
  moreover note example_prepare_input
  moreover have "ScalerTransform [Float 3, Float 2, Float 5, Float 2, Float 0, Float 0, Float 3,
                       Float 15, Float 4, Float 10, Float 12]
        \<in> set (fst (main example_joblib_load clock example_query))"
    by (simp add: example_run)
  ultimately show ?thesis by blast
qed

text \<open>
  Claim C10.  The time \<^verbatim>\<open>9:5\<close>, which is not written with two digits on each side of
  the colon, is accepted by the parse and gives the hour 9: the run with this departure
  time calls the scaler with 9 as the departure hour and shows no message about the time
  format.
\<close>

theorem lenient_time_accepted:
  "to_datetime now ''9:5'' = Inr (Timestamp 9 5)
   \<and> hour (Timestamp 9 5) = Float 9
   \<and> main example_joblib_load clock (example_query\<lparr>departure_time := ''9:5''\<rparr>) =
       ([StTitle, StSubtitle, StForm,
         ScalerTransform [Float 3, Float 2, Float 5, Float 2, Float 0, Float 0, Float 3, Float 15,
                          Float 4, Float 9, Float 12],
         ModelPredict [Float 3, Float 2, Float 5, Float 2, Float 0, Float 0, Float 3, Float 15,
                       Float 4, Float 9, Float 12],
         StSuccess (Float 5000),
         StInfo ''Delhi'' ''Mumbai'' ''IndiGo'' ''Economy'' 2 0,
         StFooter], Returned)"
proof -
  let ?q = "example_query\<lparr>departure_time := ''9:5''\<rparr>"
  have t: "to_datetime now ''9:5'' = Inr (Timestamp 9 5)" by (simp add: strptime_defs)
  have p: "prepare_input clock ?q =
        Inr [Float 3, Float 2, Float 5, Float 2, Float 0, Float 0, Float 3, Float 15, Float 4,
             Float 9, Float 12]"
    by (simp add: prepare_input_def example_query_def strptime_defs vocabulary_defs date_defs)
  have b: "predict_button ?q" by (simp add: example_query_def)
  have c: "source_city ?q \<noteq> destination_city ?q" by (simp add: example_query_def)
  have "main example_joblib_load clock ?q =
       ([StTitle, StSubtitle, StForm,
         ScalerTransform [Float 3, Float 2, Float 5, Float 2, Float 0, Float 0, Float 3, Float 15,
                          Float 4, Float 9, Float 12],
         ModelPredict [Float 3, Float 2, Float 5, Float 2, Float 0, Float 0, Float 3, Float 15,
                       Float 4, Float 9, Float 12],
         StSuccess (Float 5000),
         StInfo ''Delhi'' ''Mumbai'' ''IndiGo'' ''Economy'' 2 0,
         StFooter], Returned)"
    by (simp add: example_main[OF b c p]) (simp add: example_query_def)
  with t show ?thesis by simp
qed

text \<open>
  The times that make the parse raise are rejected: the page shows the message that names
  the HH:MM format, and neither the scaler nor the model is called.  The three examples of
  the specification are such times.
\<close>

lemma raising_time_rejected:
  assumes "load_artifacts jl = ([], Inr (m, s, le))" "\<not> is_None m" "predict_button inp"
    "source_city inp \<noteq> destination_city inp"
    and "(\<exists>e. to_datetime (now_at_departure clock) (departure_time inp) = Inl e)
         \<or> (\<exists>e. to_datetime (now_at_arrival clock) (arrival_time inp) = Inl e)"
  shows "main jl clock inp = ([StTitle, StSubtitle, StForm, StError invalid_time_msg, StFooter], Returned)"
proof -
  have "\<exists>e. prepare_input clock inp = Inl e"
  proof (cases "to_datetime (now_at_departure clock) (departure_time inp)")
    case (Inl e)
    then show ?thesis using prepare_input_time_raises(1) by blast
  next
    case (Inr t)
    with assms(5) obtain e where "to_datetime (now_at_arrival clock) (arrival_time inp) = Inl e" by auto
    with Inr show ?thesis using prepare_input_time_raises(2) by blast
  qed
  then obtain e where e: "prepare_input clock inp = Inl e" by blast
  show ?thesis
    by (rule main_prepare_raises_ValueError[OF assms(1-4) e prepare_input_raises_ValueError[OF e]])
qed

lemma specification_times_raise:
  "\<exists>e. to_datetime now ''14:65'' = Inl e"
  "\<exists>e. to_datetime now ''25:00'' = Inl e"
  "\<exists>e. to_datetime now ''abc'' = Inl e"
  by (simp_all add: strptime_defs)

text \<open>
  Claim C4 fails on the code at the null markers.  The string \<^verbatim>\<open>NaT\<close> is not a time
  of the day, yet the parse does not raise on it: it gives \<^verbatim>\<open>NaT\<close>, whose hour is
  \<^verbatim>\<open>nan\<close>.  The run with this departure time shows no message about the time format; it
  builds the row with \<^verbatim>\<open>nan\<close> as the departure hour, calls the scaler and the model with
  it, and shows a fare.
\<close>

theorem null_marker_time_not_rejected:
  "to_datetime now ''NaT'' = Inr NaT
   \<and> hour NaT = NaN
   \<and> main example_joblib_load clock (example_query\<lparr>departure_time := ''NaT''\<rparr>) =
       ([StTitle, StSubtitle, StForm,
         ScalerTransform [Float 3, Float 2, Float 5, Float 2, Float 0, Float 0, Float 3, Float 15,
                          Float 4, NaN, Float 12],
         ModelPredict [Float 3, Float 2, Float 5, Float 2, Float 0, Float 0, Float 3, Float 15,
                       Float 4, NaN, Float 12],
         StSuccess (Float 5000),
         StInfo ''Delhi'' ''Mumbai'' ''IndiGo'' ''Economy'' 2 0,
         StFooter], Returned)"
proof -
  let ?q = "example_query\<lparr>departure_time := ''NaT''\<rparr>"
  have t: "to_datetime now ''NaT'' = Inr NaT" by (simp add: to_datetime_def nat_strings_def)
  have p: "prepare_input clock ?q =
        Inr [Float 3, Float 2, Float 5, Float 2, Float 0, Float 0, Float 3, Float 15, Float 4,
             NaN, Float 12]"
    by (simp add: prepare_input_def example_query_def strptime_defs vocabulary_defs date_defs)
  have b: "predict_button ?q" by (simp add: example_query_def)
  have c: "source_city ?q \<noteq> destination_city ?q" by (simp add: example_query_def)
  have "main example_joblib_load clock ?q =
       ([StTitle, StSubtitle, StForm,
         ScalerTransform [Float 3, Float 2, Float 5, Float 2, Float 0, Float 0, Float 3, Float 15,
                          Float 4, NaN, Float 12],
         ModelPredict [Float 3, Float 2, Float 5, Float 2, Float 0, Float 0, Float 3, Float 15,
                       Float 4, NaN, Float 12],
         StSuccess (Float 5000),
         StInfo ''Delhi'' ''Mumbai'' ''IndiGo'' ''Economy'' 2 0,
         StFooter], Returned)"
    by (simp add: example_main[OF b c p]) (simp add: example_query_def)
  with t show ?thesis by simp
qed

text \<open>
  Claim C1.  For a submitted query that passes validation (the cities differ, both times
  parse to a time of the day, the categorical values are in their vocabularies), with the
  artifacts loaded, the script calls the scaler with a row of exactly 11 numbers, in the
  order: airline code, source code, destination code, duration, stops, class code, month,
  day of the month, day of the week, departure hour, arrival hour, the codes being the
  positions in the vocabularies.
\<close>

theorem feature_vector_fixed_order:
  assumes "load_artifacts jl = ([], Inr (m, Scaler g, le))" and "\<not> is_None m"
    and "predict_button inp" and "source_city inp \<noteq> destination_city inp"
    and "to_datetime (now_at_departure clock) (departure_time inp) = Inr (Timestamp dh dm)"
    and "to_datetime (now_at_arrival clock) (arrival_time inp) = Inr (Timestamp ah am)"
    and "airline inp \<in> set airline_options" and "source_city inp \<in> set city_options"
    and "destination_city inp \<in> set city_options" and "flight_class inp \<in> set class_options"
  shows "\<exists>airline_code source_code destination_code class_code v tail out.
           list_index airline_options (airline inp) = Inr airline_code
         \<and> list_index city_options (source_city inp) = Inr source_code
         \<and> list_index city_options (destination_city inp) = Inr destination_code
         \<and> list_index class_options (flight_class inp) = Inr class_code
         \<and> v = [Float (real airline_code), Float (real source_code),
                 Float (real destination_code), Float (duration inp),
                 Float (real_of_int (total_stops inp)), Float (real class_code),
                 Float (real_of_int (month (journey_date inp))),
                 Float (real_of_int (day (journey_date inp))),
                 Float (real_of_int (weekday (journey_date inp))),
                 Float (real dh), Float (real ah)]
         \<and> length v = 11
         \<and> prepare_input clock inp = Inr v
         \<and> main jl clock inp = ([StTitle, StSubtitle, StForm, ScalerTransform v] @ tail, out)"
proof -
  obtain a where a: "list_index airline_options (airline inp) = Inr a"
    using list_index_member[OF assms(7)] by blast
  obtain s where s: "list_index city_options (source_city inp) = Inr s"
    using list_index_member[OF assms(8)] by blast
  obtain d where d: "list_index city_options (destination_city inp) = Inr d"
    using list_index_member[OF assms(9)] by blast
  obtain c where c: "list_index class_options (flight_class inp) = Inr c"
    using list_index_member[OF assms(10)] by blast
  define v where "v = [Float (real a), Float (real s), Float (real d), Float (duration inp),
                 Float (real_of_int (total_stops inp)), Float (real c),
                 Float (real_of_int (month (journey_date inp))),
                 Float (real_of_int (day (journey_date inp))),
                 Float (real_of_int (weekday (journey_date inp))),
                 Float (real dh), Float (real ah)]"
  have p: "prepare_input clock inp = Inr v"
    by (simp add: prepare_input_def assms(5,6) a s d c v_def)
  obtain rest r where t: "try_body m (Scaler g) clock inp = (ScalerTransform v # rest, r)"
    using try_body_scaler_called[OF p] by blast
  obtain tail out where
    "main jl clock inp = ([StTitle, StSubtitle, StForm] @ (ScalerTransform v # rest) @ tail, out)"
    using main_try_events[OF assms(1-4) t] by blast
  then have "main jl clock inp = ([StTitle, StSubtitle, StForm, ScalerTransform v] @ (rest @ tail), out)"
    by simp
  moreover have "length v = 11" by (simp add: v_def)
  ultimately show ?thesis using a s d c p v_def by blast
qed

theorem feature_vector_fixed_order_witness:
  "load_artifacts example_joblib_load
      = ([], Inr (Model example_model, Scaler example_scaler, Encoders))
   \<and> \<not> is_None (Model example_model)
   \<and> predict_button example_query
   \<and> source_city example_query \<noteq> destination_city example_query
   \<and> to_datetime (now_at_departure example_clock) (departure_time example_query) = Inr (Timestamp 10 0)
   \<and> to_datetime (now_at_arrival example_clock) (arrival_time example_query) = Inr (Timestamp 12 0)
   \<and> airline example_query \<in> set airline_options
   \<and> source_city example_query \<in> set city_options
   \<and> destination_city example_query \<in> set city_options
   \<and> flight_class example_query \<in> set class_options
   \<and> (\<exists>v tail out. length v = 11 \<and> prepare_input example_clock example_query = Inr v
         \<and> main example_joblib_load example_clock example_query
              = ([StTitle, StSubtitle, StForm, ScalerTransform v] @ tail, out))"
proof -
  have n: "\<not> is_None (Model example_model)" by simp
  have b: "predict_button example_query" by (simp add: example_query_def)
  have c: "source_city example_query \<noteq> destination_city example_query"
    by (simp add: example_query_def)
  have d: "to_datetime (now_at_departure example_clock) (departure_time example_query) = Inr (Timestamp 10 0)"
    by (simp add: example_query_def strptime_defs)
  have r: "to_datetime (now_at_arrival example_clock) (arrival_time example_query) = Inr (Timestamp 12 0)"
    by (simp add: example_query_def strptime_defs)
  have v1: "airline example_query \<in> set airline_options"
    by (simp add: example_query_def airline_options_def)
  have v2: "source_city example_query \<in> set city_options"
    by (simp add: example_query_def city_options_def)
  have v3: "destination_city example_query \<in> set city_options"
    by (simp add: example_query_def city_options_def)
  have v4: "flight_class example_query \<in> set class_options"
    by (simp add: example_query_def class_options_def)
  from feature_vector_fixed_order [OF example_load n b c d r v1 v2 v3 v4]
  have "\<exists>v tail out. length v = 11 \<and> prepare_input example_clock example_query = Inr v
         \<and> main example_joblib_load example_clock example_query
              = ([StTitle, StSubtitle, StForm, ScalerTransform v] @ tail, out)"
    by blast
  with example_load n b c d r v1 v2 v3 v4 show ?thesis by blast
qed

section \<open>The claim about the start of the script\<close>

lemma load_artifacts_all_loaded:
  "jl ''flight_fare_model.joblib'' = Inr m \<Longrightarrow> jl ''scaler.joblib'' = Inr s \<Longrightarrow>
   jl ''label_encoders.joblib'' = Inr le \<Longrightarrow> load_artifacts jl = ([], Inr (m, s, le))"
  by (simp add: load_artifacts_def)

lemma load_artifacts_only_missing:
  assumes "\<exists>f\<in>set artifact_files. \<exists>e. jl f = Inl e"
    and "\<forall>f\<in>set artifact_files. \<forall>e. jl f = Inl e \<longrightarrow> exc_class e = FileNotFoundError"
  shows "load_artifacts jl = ([StError files_not_found_msg], Inr (PyNone, PyNone, PyNone))"
  using assms by (auto simp: load_artifacts_def artifact_files_def split: sum.splits)

lemma form_rendered_iff:
  "StForm \<in> set (fst (main jl clock inp)) \<longleftrightarrow>
     (\<exists>m s le. jl ''flight_fare_model.joblib'' = Inr m \<and> jl ''scaler.joblib'' = Inr s
        \<and> jl ''label_encoders.joblib'' = Inr le \<and> \<not> is_None m)"
proof
  assume f: "StForm \<in> set (fst (main jl clock inp))"
  consider (ok) m s le where "load_artifacts jl = ([], Inr (m, s, le))"
      "jl ''flight_fare_model.joblib'' = Inr m" "jl ''scaler.joblib'' = Inr s"
      "jl ''label_encoders.joblib'' = Inr le"
    | (missing) "load_artifacts jl = ([StError files_not_found_msg], Inr (PyNone, PyNone, PyNone))"
    | (raised) e' where "load_artifacts jl = ([], Inl e')"
    using load_artifacts_cases[of jl] by blast
  then show "\<exists>m s le. jl ''flight_fare_model.joblib'' = Inr m \<and> jl ''scaler.joblib'' = Inr s
        \<and> jl ''label_encoders.joblib'' = Inr le \<and> \<not> is_None m"
  proof cases
    case ok
    have "\<not> is_None m"
    proof
      assume "is_None m"
      then show False using f by (simp add: main_not_loaded(3)[OF ok(1)])
    qed
    with ok show ?thesis by blast
  next
    case missing
    then show ?thesis using f by (simp add: main_not_loaded(1))
  next
    case raised
    then show ?thesis using f by (simp add: main_not_loaded(2))
  qed
next
  assume "\<exists>m s le. jl ''flight_fare_model.joblib'' = Inr m \<and> jl ''scaler.joblib'' = Inr s
        \<and> jl ''label_encoders.joblib'' = Inr le \<and> \<not> is_None m"
  then obtain m s le where l: "load_artifacts jl = ([], Inr (m, s, le))" and n: "\<not> is_None m"
    using load_artifacts_all_loaded by blast
  show "StForm \<in> set (fst (main jl clock inp))"
  proof (cases "predict_button inp")
    case False
    then show ?thesis by (simp add: main_not_pressed[OF l n])
  next
    case pressed: True
    show ?thesis
    proof (cases "source_city inp = destination_city inp")
      case True
      then show ?thesis by (simp add: main_same_city[OF l n pressed])
    next
      case False
      obtain ev r where "try_body m s clock inp = (ev, r)" by (cases "try_body m s clock inp")
      from main_try_events[OF l n pressed False this] show ?thesis by auto
    qed
  qed
qed

text \<open>
  Claim C8, as stated, fails twice.  With the file of the model unreadable (the load raises
  something else than \<^verbatim>\<open>FileNotFoundError\<close>) and no file missing, the exception leaves
  \<^verbatim>\<open>main\<close> and the form is not rendered: missing files are not the only fatal condition
  at the start.  With the file of the model unreadable and the file of the scaler missing,
  a file is missing and yet the diagnostic is not shown: the first exception leaves the
  function before the second load.
\<close>

theorem only_startup_fatal_counterexample:
  "unreadable_model_load ''flight_fare_model.joblib'' = Inl (Exc OtherException ''invalid load key'')
   \<and> unreadable_model_load ''scaler.joblib'' = Inr (Scaler example_scaler)
   \<and> unreadable_model_load ''label_encoders.joblib'' = Inr Encoders
   \<and> main unreadable_model_load example_clock example_query
        = ([], Raised (Exc OtherException ''invalid load key''))
   \<and> StForm \<notin> set (fst (main unreadable_model_load example_clock example_query))
   \<and> unreadable_model_missing_scaler_load ''scaler.joblib''
        = Inl (Exc FileNotFoundError ''scaler.joblib'')
   \<and> main unreadable_model_missing_scaler_load example_clock example_query
        = ([], Raised (Exc OtherException ''invalid load key''))
   \<and> StError files_not_found_msg
        \<notin> set (fst (main unreadable_model_missing_scaler_load example_clock example_query))"
proof -
  have l1: "load_artifacts unreadable_model_load = ([], Inl (Exc OtherException ''invalid load key''))"
    by (simp add: load_artifacts_def unreadable_model_load_def)
  have l2: "load_artifacts unreadable_model_missing_scaler_load
              = ([], Inl (Exc OtherException ''invalid load key''))"
    by (simp add: load_artifacts_def unreadable_model_missing_scaler_load_def)
  show ?thesis
    by (simp add: main_not_loaded(2)[OF l1] main_not_loaded(2)[OF l2])
       (simp add: unreadable_model_load_def unreadable_model_missing_scaler_load_def
          missing_scaler_load_def example_joblib_load_def)
qed

text \<open>
  Claim C8, amended.  When one or more of the three artifact files are missing and no load
  fails in another way, the run is the diagnostic message alone and the script stops: the
  form is not rendered.  The form is rendered exactly when the three loads succeed and the
  loaded model is not \<^verbatim>\<open>None\<close>.
\<close>

theorem missing_artifacts_halt:
  "((\<exists>f\<in>set artifact_files. \<exists>e. jl f = Inl e)
      \<and> (\<forall>f\<in>set artifact_files. \<forall>e. jl f = Inl e \<longrightarrow> exc_class e = FileNotFoundError)
     \<longrightarrow> main jl clock inp = ([StError files_not_found_msg], Stopped))
   \<and> (StForm \<in> set (fst (main jl clock inp)) \<longleftrightarrow>
        (\<exists>m s le. jl ''flight_fare_model.joblib'' = Inr m \<and> jl ''scaler.joblib'' = Inr s
           \<and> jl ''label_encoders.joblib'' = Inr le \<and> \<not> is_None m))"
  using load_artifacts_only_missing[of jl] main_not_loaded(1)[of jl clock inp]
    form_rendered_iff[of jl clock inp]
  by blast

theorem missing_artifacts_halt_witness:
  "missing_scaler_load ''flight_fare_model.joblib'' = Inr (Model example_model)
   \<and> missing_scaler_load ''scaler.joblib'' = Inl (Exc FileNotFoundError ''scaler.joblib'')
   \<and> missing_scaler_load ''label_encoders.joblib'' = Inr Encoders
   \<and> main missing_scaler_load example_clock example_query = ([StError files_not_found_msg], Stopped)
   \<and> StForm \<notin> set (fst (main missing_scaler_load example_clock example_query))"
proof -
  have l: "missing_scaler_load ''flight_fare_model.joblib'' = Inr (Model example_model)"
    "missing_scaler_load ''scaler.joblib'' = Inl (Exc FileNotFoundError ''scaler.joblib'')"
    "missing_scaler_load ''label_encoders.joblib'' = Inr Encoders"
    by (simp_all add: missing_scaler_load_def example_joblib_load_def)
  have a: "\<exists>f\<in>set artifact_files. \<exists>e. missing_scaler_load f = Inl e"
    by (simp add: artifact_files_def l)
  have b: "\<forall>f\<in>set artifact_files. \<forall>e. missing_scaler_load f = Inl e \<longrightarrow> exc_class e = FileNotFoundError"
    by (auto simp: artifact_files_def l)
  from missing_artifacts_halt [of missing_scaler_load example_clock example_query] a b
  have m: "main missing_scaler_load example_clock example_query = ([StError files_not_found_msg], Stopped)"
    by blast
  then have "StForm \<notin> set (fst (main missing_scaler_load example_clock example_query))" by simp
  with l m show ?thesis by blast
qed

end
